theory Spec2Isabelle
  imports Main "HOL-Library.Multiset"
begin

section \<open>Data model of backend/main.go\<close>

text \<open>
  The backend is one Go file: a connection string built from the environment, a table
  \<open>items\<close> in a relational store, and two HTTP routes behind a CORS wrapper. The
  embedding keeps the Go names. What the Go standard library and the store do is written
  out from their documented behaviour, next to the call that uses it.

  Header names, methods, paths and environment values are byte strings (\<open>string\<close>) and
  are only compared with ASCII constants or escaped byte by byte. A title is trimmed by
  \<open>strings.TrimSpace\<close>, which works on Unicode code points, so a title is the list of
  runes that ranging over the Go string yields.
\<close>

type_synonym rune = nat
type_synonym gostring = "rune list"
type_synonym time = int
type_synonym duration = nat

definition Second :: duration where
  "Second = 1000000000"

definition gostr :: "string \<Rightarrow> gostring" where
  "gostr s = map of_char s"

record Item =
  ID :: int
  Title :: gostring
  CreatedAt :: time

record createItemRequest =
  req_Title :: gostring

text \<open>
  A Go slice is \<open>nil\<close> or a (possibly empty) sequence: \<open>encoding/json\<close> writes the
  first as \<open>null\<close> and the second as an array.
\<close>

datatype 'a slice = NilSlice | Slice "'a list"

definition make_slice :: "'a slice" where
  "make_slice = Slice []"

fun append_slice :: "'a slice \<Rightarrow> 'a \<Rightarrow> 'a slice" where
  "append_slice NilSlice x = Slice [x]"
| "append_slice (Slice xs) x = Slice (xs @ [x])"

subsection \<open>JSON documents written by json.Encoder\<close>

text \<open>
  \<open>Encode(v)\<close> writes the JSON text of \<open>v\<close> and a newline. The model keeps the
  document as a value: an \<open>Item\<close> is an object with its three fields in the order of
  the struct, a \<open>time.Time\<close> is left as the instant that Go prints in RFC 3339.
\<close>

datatype json =
    JNull
  | JNumber int
  | JString gostring
  | JTime time
  | JArray "json list"
  | JObject "(string \<times> json) list"

definition marshalItem :: "Item \<Rightarrow> json" where
  "marshalItem it =
     JObject [(''id'', JNumber (ID it)), (''title'', JString (Title it)),
              (''created_at'', JTime (CreatedAt it))]"

fun marshalItems :: "Item slice \<Rightarrow> json" where
  "marshalItems NilSlice = JNull"
| "marshalItems (Slice xs) = JArray (map marshalItem xs)"

definition marshalStatus :: "string \<Rightarrow> json" where
  "marshalStatus s = JObject [(''status'', JString (gostr s))]"

section \<open>Configuration: getEnv and buildDSNFromEnv\<close>

type_synonym environ = "string \<rightharpoonup> string"

definition Getenv :: "environ \<Rightarrow> string \<Rightarrow> string" where
  \<comment> \<open>\<open>os.Getenv\<close>: the value, or the empty string when the variable is not set.\<close>
  "Getenv env key = (case env key of None \<Rightarrow> [] | Some v \<Rightarrow> v)"

definition getEnv :: "environ \<Rightarrow> string \<Rightarrow> string \<Rightarrow> string" where
  "getEnv env key def = (let val = Getenv env key in if val = [] then def else val)"

text \<open>
  \<open>url.QueryEscape\<close>: letters, digits and \<open>- _ . ~\<close> stay, a space becomes \<open>+\<close>, every
  other byte becomes \<open>%XX\<close> in upper-case hexadecimal.
\<close>

definition upperhex :: string where
  "upperhex = ''0123456789ABCDEF''"

definition isAlnum :: "char \<Rightarrow> bool" where
  "isAlnum c = (let n = (of_char c :: nat) in
     (97 \<le> n \<and> n \<le> 122) \<or> (65 \<le> n \<and> n \<le> 90) \<or> (48 \<le> n \<and> n \<le> 57))"

definition shouldEscape :: "char \<Rightarrow> bool" where
  "shouldEscape c = (\<not> (isAlnum c \<or> c \<in> set ''-_.~''))"

definition escapeByte :: "char \<Rightarrow> string" where
  "escapeByte c =
     (if c = CHR '' '' then ''+''
      else if shouldEscape c then
        [CHR ''%'', upperhex ! ((of_char c :: nat) div 16), upperhex ! ((of_char c :: nat) mod 16)]
      else [c])"

definition QueryEscape :: "string \<Rightarrow> string" where
  "QueryEscape s = concat (map escapeByte s)"

record dsnConfig =
  host :: string
  port :: string
  user :: string
  password :: string
  dbName :: string
  sslmode :: string

definition readDSNEnv :: "environ \<Rightarrow> dsnConfig" where
  \<comment> \<open>the six local variables of \<open>buildDSNFromEnv\<close>\<close>
  "readDSNEnv env =
     \<lparr> host = getEnv env ''DB_HOST'' ''localhost'',
       port = getEnv env ''DB_PORT'' ''5432'',
       user = getEnv env ''DB_USER'' ''app'',
       password = getEnv env ''DB_PASSWORD'' ''secret'',
       dbName = getEnv env ''DB_NAME'' ''appdb'',
       sslmode = getEnv env ''DB_SSLMODE'' ''disable'' \<rparr>"

definition formatDSN :: "dsnConfig \<Rightarrow> string" where
  \<comment> \<open>the \<open>fmt.Sprintf\<close> call with its six \<open>%s\<close> arguments\<close>
  "formatDSN c =
     ''postgres://'' @ QueryEscape (user c) @ '':'' @ QueryEscape (password c) @ ''@''
       @ host c @ '':'' @ port c @ ''/'' @ dbName c @ ''?sslmode='' @ sslmode c"

definition buildDSNFromEnv :: "environ \<Rightarrow> string" where
  "buildDSNFromEnv env = formatDSN (readDSNEnv env)"

section \<open>The store\<close>

text \<open>
  The store is PostgreSQL behind \<open>database/sql\<close>. Its state is the table \<open>items\<close> in
  insertion order and the next value of the \<open>SERIAL\<close> sequence of \<open>id\<close>. Every call
  sent to it is appended to \<open>calls\<close>, so that a theorem can say which round trips a
  request made. What the store does on one request that the program cannot control
  (its clock, whether an operation fails, how fast it answers a ping) is the
  \<open>conditions\<close> record given with the request.
\<close>

datatype db_call = CallPing duration | CallInsert gostring | CallSelect

record db =
  rows :: "Item list"
  next_id :: int
  calls :: "db_call list"

datatype ping_behaviour = Answers duration | Refuses duration | Hangs

datatype list_fault = NoFault | QueryFails | ScanFails nat | IterFails nat

record conditions =
  now :: time
  ping :: ping_behaviour
  insert_fails :: bool
  list_fault :: list_fault

definition empty_db :: db where
  \<comment> \<open>the table right after \<open>migrate\<close> created it\<close>
  "empty_db = \<lparr> rows = [], next_id = 1, calls = [] \<rparr>"

text \<open>
  \<open>context.WithTimeout(parent, d)\<close>: the request's context has no deadline of its own
  but is cancelled when the client goes away (\<open>Some t\<close>: after \<open>t\<close>); the derived context
  ends at the earlier of the two. \<open>PingContext\<close> returns the store's answer when it comes
  before the context ends, and the context's error at that moment otherwise.
\<close>

definition WithTimeout :: "duration option \<Rightarrow> duration \<Rightarrow> duration" where
  "WithTimeout parent d = (case parent of None \<Rightarrow> d | Some t \<Rightarrow> min t d)"

definition PingContext :: "duration \<Rightarrow> conditions \<Rightarrow> db \<Rightarrow> bool \<times> db" where
  \<comment> \<open>the first component is \<open>err != nil\<close>\<close>
  "PingContext ctx c st =
     (case ping c of
        Answers t \<Rightarrow>
          if t < ctx then (False, st\<lparr>calls := calls st @ [CallPing t]\<rparr>)
          else (True, st\<lparr>calls := calls st @ [CallPing ctx]\<rparr>)
      | Refuses t \<Rightarrow> (True, st\<lparr>calls := calls st @ [CallPing (min t ctx)]\<rparr>)
      | Hangs \<Rightarrow> (True, st\<lparr>calls := calls st @ [CallPing ctx]\<rparr>))"

definition insertReturning :: "conditions \<Rightarrow> gostring \<Rightarrow> db \<Rightarrow> Item option \<times> db" where
  \<comment> \<open>\<open>INSERT INTO items (title) VALUES ($1) RETURNING id, title, created_at\<close>, then \<open>Scan\<close>\<close>
  "insertReturning c title st =
     (let st1 = st\<lparr>calls := calls st @ [CallInsert title]\<rparr> in
      if insert_fails c then (None, st1)
      else
        (let it = \<lparr> ID = next_id st, Title = title, CreatedAt = now c \<rparr> in
         (Some it, st1\<lparr>rows := rows st @ [it], next_id := next_id st + 1\<rparr>)))"

definition orderByCreatedAtDesc :: "Item list \<Rightarrow> Item list" where
  \<comment> \<open>\<open>ORDER BY created_at DESC\<close>; rows with equal timestamps keep the table's order,
      one of the orders the store may choose\<close>
  "orderByCreatedAtDesc xs = sort_key (\<lambda>it. - CreatedAt it) xs"

definition selectItems :: "conditions \<Rightarrow> db \<Rightarrow> Item list option \<times> db" where
  \<comment> \<open>\<open>SELECT id, title, created_at FROM items ORDER BY created_at DESC\<close>\<close>
  "selectItems c st =
     (let st1 = st\<lparr>calls := calls st @ [CallSelect]\<rparr> in
      if list_fault c = QueryFails then (None, st1)
      else (Some (orderByCreatedAtDesc (rows st)), st1))"

section \<open>http.ResponseWriter\<close>

text \<open>
  The header map can be changed until the status line is written; \<open>WriteHeader\<close> sends
  the map as it is at that moment (\<open>sent\<close>), and a later \<open>WriteHeader\<close> is ignored. The
  first \<open>Write\<close> without a status writes 200 first; a 204 or 304 response takes no body.
  The record holds what the handler hands to the writer; what the transport adds or
  leaves out afterwards (\<open>Date\<close>, \<open>Content-Length\<close>, the body of a reply to HEAD)
  is not part of it.
\<close>

datatype chunk = Text string | JSON json

record response =
  header :: "string \<rightharpoonup> string"
  wroteHeader :: bool
  status :: nat
  sent :: "string \<rightharpoonup> string"
  body :: "chunk list"

definition newResponse :: response where
  "newResponse = \<lparr> header = Map.empty, wroteHeader = False, status = 0,
                    sent = Map.empty, body = [] \<rparr>"

definition Header_Set :: "string \<Rightarrow> string \<Rightarrow> response \<Rightarrow> response" where
  "Header_Set k v w = w\<lparr>header := (header w)(k \<mapsto> v)\<rparr>"

definition Header_Del :: "string \<Rightarrow> response \<Rightarrow> response" where
  "Header_Del k w = w\<lparr>header := (header w)(k := None)\<rparr>"

definition WriteHeader :: "nat \<Rightarrow> response \<Rightarrow> response" where
  "WriteHeader code w =
     (if wroteHeader w then w
      else w\<lparr>wroteHeader := True, status := code, sent := header w\<rparr>)"

definition bodyAllowed :: "nat \<Rightarrow> bool" where
  "bodyAllowed code = (\<not> ((100 \<le> code \<and> code \<le> 199) \<or> code = 204 \<or> code = 304))"

definition Write :: "chunk \<Rightarrow> response \<Rightarrow> response" where
  "Write c w =
     (let w1 = (if wroteHeader w then w else WriteHeader 200 w) in
      if bodyAllowed (status w1) then w1\<lparr>body := body w1 @ [c]\<rparr> else w1)"

definition Error :: "response \<Rightarrow> string \<Rightarrow> nat \<Rightarrow> response" where
  \<comment> \<open>\<open>http.Error\<close>: a plain-text reply, the message followed by a newline\<close>
  "Error w msg code =
     Write (Text (msg @ [CHR 0x0A]))
       (WriteHeader code
         (Header_Set ''X-Content-Type-Options'' ''nosniff''
           (Header_Set ''Content-Type'' ''text/plain; charset=utf-8''
             (Header_Del ''Content-Length'' w))))"

definition finish :: "response \<Rightarrow> response" where
  \<comment> \<open>a handler that returns without writing gets an empty 200 reply\<close>
  "finish w = (if wroteHeader w then w else WriteHeader 200 w)"

section \<open>strings.TrimSpace\<close>

definition IsSpace :: "rune \<Rightarrow> bool" where
  \<comment> \<open>\<open>unicode.IsSpace\<close>: the code points with the property White_Space\<close>
  "IsSpace r =
     ((9 \<le> r \<and> r \<le> 13) \<or> r = 32 \<or> r = 0x85 \<or> r = 0xA0 \<or> r = 0x1680
      \<or> (0x2000 \<le> r \<and> r \<le> 0x200A) \<or> r = 0x2028 \<or> r = 0x2029 \<or> r = 0x202F
      \<or> r = 0x205F \<or> r = 0x3000)"

definition TrimSpace :: "gostring \<Rightarrow> gostring" where
  "TrimSpace s = rev (dropWhile IsSpace (rev (dropWhile IsSpace s)))"

section \<open>Requests and handlers\<close>

text \<open>
  \<open>Body\<close> is the request body as \<open>json.NewDecoder(r.Body).Decode(&req)\<close> sees it: the
  call returns an error, or it fills the request struct. How that outcome comes from the
  bytes of the body is \<open>Decode\<close>, in the section on \<open>encoding/json\<close> below.
  \<open>Context\<close> is the time after which the request's context is cancelled, if it ever is.
\<close>

datatype decoded = DecodeError | Decoded createItemRequest

record request =
  Method :: string
  Path :: string
  Body :: decoded
  Context :: "duration option"

text \<open>
  A handler gets the writer and the request, as in Go, and the store behind \<open>a.db\<close>
  with the conditions of this request; it returns the writer and the store as it leaves
  them. The \<open>log.Printf\<close> calls write to the process log only and are left out.
\<close>

type_synonym handler = "conditions \<Rightarrow> response \<Rightarrow> request \<Rightarrow> db \<Rightarrow> response \<times> db"

definition handleHealth :: handler where
  "handleHealth c w r st =
     (let w1 = Header_Set ''Content-Type'' ''application/json'' w;
          ctx = WithTimeout (Context r) (1 * Second);
          (err, st1) = PingContext ctx c st
      in if err then
           (Write (JSON (marshalStatus ''down'')) (WriteHeader 503 w1), st1)
         else (Write (JSON (marshalStatus ''ok'')) w1, st1))"

definition createItem :: handler where
  "createItem c w r st =
     (case Body r of
        DecodeError \<Rightarrow> (Error w ''invalid JSON'' 400, st)
      | Decoded req \<Rightarrow>
          (let title = TrimSpace (req_Title req) in
           if title = [] then (Error w ''title is required'' 400, st)
           else
             (case insertReturning c title st of
                (None, st1) \<Rightarrow> (Error w ''failed to create item'' 500, st1)
              | (Some item, st1) \<Rightarrow>
                  (Write (JSON (marshalItem item))
                     (WriteHeader 201 (Header_Set ''Content-Type'' ''application/json'' w)),
                   st1))))"

text \<open>
  The loop \<open>for rows.Next() { rows.Scan(...); items = append(items, it) }\<close> over the
  result set. The row with index \<open>i\<close> is next. \<open>IterFails i\<close> makes \<open>rows.Next\<close> return
  false there with \<open>rows.Err\<close> set; \<open>ScanFails i\<close> makes \<open>rows.Scan\<close> fail there.
\<close>

datatype scanned = ScanError | Stopped "Item slice" bool

fun scanRows :: "list_fault \<Rightarrow> nat \<Rightarrow> Item list \<Rightarrow> Item slice \<Rightarrow> scanned" where
  "scanRows f i [] items = Stopped items (f = IterFails i)"
| "scanRows f i (it # rest) items =
     (if f = IterFails i then Stopped items True
      else if f = ScanFails i then ScanError
      else scanRows f (i + 1) rest (append_slice items it))"

definition listItems :: handler where
  "listItems c w r st =
     (case selectItems c st of
        (None, st1) \<Rightarrow> (Error w ''failed to load items'' 500, st1)
      | (Some result, st1) \<Rightarrow>
          (case scanRows (list_fault c) 0 result make_slice of
             ScanError \<Rightarrow> (Error w ''failed to load items'' 500, st1)
           | Stopped items rowsErr \<Rightarrow>
               if rowsErr then (Error w ''failed to load items'' 500, st1)
               else
                 (Write (JSON (marshalItems items))
                    (Header_Set ''Content-Type'' ''application/json'' w),
                  st1)))"

definition handleItems :: handler where
  "handleItems c w r st =
     (if Method r = ''GET'' then listItems c w r st
      else if Method r = ''POST'' then createItem c w r st
      else if Method r = ''OPTIONS'' then (WriteHeader 204 w, st)
      else (Error (Header_Set ''Allow'' ''GET, POST, OPTIONS'' w) ''method not allowed'' 405, st))"

definition NotFound :: handler where
  \<comment> \<open>\<open>http.NotFound\<close>, the multiplexer's reply when no pattern matches\<close>
  "NotFound c w r st = (Error w ''404 page not found'' 404, st)"

definition mux :: handler where
  \<comment> \<open>the \<open>http.ServeMux\<close> of \<open>main\<close>: two patterns without a trailing slash, each
      matching its path only, for every method\<close>
  "mux c w r st =
     (if Path r = ''/api/health'' then handleHealth c w r st
      else if Path r = ''/api/items'' then handleItems c w r st
      else NotFound c w r st)"

definition withCORS :: "handler \<Rightarrow> handler" where
  "withCORS next c w r st =
     (let w1 = Header_Set ''Access-Control-Allow-Origin'' ''*'' w;
          w2 = Header_Set ''Access-Control-Allow-Headers'' ''Content-Type'' w1;
          w3 = Header_Set ''Access-Control-Allow-Methods'' ''GET,POST,OPTIONS'' w2
      in if Method r = ''OPTIONS'' then (WriteHeader 204 w3, st)
         else next c w3 r st)"

definition serve :: "conditions \<Rightarrow> request \<Rightarrow> db \<Rightarrow> response \<times> db" where
  \<comment> \<open>one request through \<open>handler := withCORS(mux)\<close> of \<open>main\<close>, on a fresh writer\<close>
  "serve c r st = (case withCORS mux c newResponse r st of (w, st1) \<Rightarrow> (finish w, st1))"

section \<open>encoding/json on the bytes of a body\<close>


subsection \<open>String literals\<close>










subsection \<open>The scanner\<close>


















subsection \<open>Decoder.Decode and json.Valid\<close>








section \<open>Well-formed replies\<close>

text \<open>
  \<open>answered w r w'\<close>: the writer \<open>w'\<close> holds one complete reply to \<open>r\<close> written on top
  of \<open>w\<close>. The status line is out; every header of \<open>w\<close> other than the entity headers
  and \<open>Allow\<close> went out unchanged; and the content type follows the status: JSON for
  200, 201 and 503, plain text for 400, 405 and 500, and whatever \<open>w\<close> had for the 204
  that only an OPTIONS request gets.
\<close>

definition answered :: "response \<Rightarrow> request \<Rightarrow> response \<Rightarrow> bool" where
  "answered w r w' =
     (wroteHeader w' \<and>
      (\<forall>k. k \<notin> {''Content-Type'', ''Content-Length'', ''X-Content-Type-Options'', ''Allow''}
            \<longrightarrow> sent w' k = header w k) \<and>
      (status w' \<in> {200, 201, 503} \<and> sent w' ''Content-Type'' = Some ''application/json'' \<or>
       status w' \<in> {400, 405, 500} \<and>
         sent w' ''Content-Type'' = Some ''text/plain; charset=utf-8'' \<or>
       status w' = 204 \<and> Method r = ''OPTIONS'' \<and>
         sent w' ''Content-Type'' = header w ''Content-Type''))"

section \<open>Example requests\<close>

text \<open>
  Concrete inputs for the examples that follow the theorems: a store in good order whose
  clock shows \<open>t\<close>, a request without a context deadline, a JSON body with a title, two
  bodies given by their bytes, and the table after three items were created at times 10,
  20 and 30.
\<close>

definition steady :: "time \<Rightarrow> conditions" where
  "steady t = \<lparr> now = t, ping = Answers 2000000, insert_fails = False, list_fault = NoFault \<rparr>"

definition request_of :: "string \<Rightarrow> string \<Rightarrow> decoded \<Rightarrow> request" where
  "request_of m p b = \<lparr> Method = m, Path = p, Body = b, Context = None \<rparr>"

definition titled :: "string \<Rightarrow> decoded" where
  "titled s = Decoded \<lparr> req_Title = gostr s \<rparr>"




definition three_items :: db where
  "three_items =
     snd (serve (steady 30) (request_of ''POST'' ''/api/items'' (titled ''C''))
       (snd (serve (steady 20) (request_of ''POST'' ''/api/items'' (titled ''B''))
         (snd (serve (steady 10) (request_of ''POST'' ''/api/items'' (titled ''A''))
           empty_db)))))"

section \<open>What the writer holds after a reply\<close>

lemmas writer_defs = Write_def WriteHeader_def Header_Set_def Header_Del_def bodyAllowed_def

lemma Error_fresh:
  "\<not> wroteHeader w \<Longrightarrow> bodyAllowed code \<Longrightarrow>
   Error w msg code =
     w\<lparr>header := (header w)(''Content-Length'' := None,
                     ''Content-Type'' \<mapsto> ''text/plain; charset=utf-8'',
                     ''X-Content-Type-Options'' \<mapsto> ''nosniff''),
       wroteHeader := True, status := code,
       sent := (header w)(''Content-Length'' := None,
                     ''Content-Type'' \<mapsto> ''text/plain; charset=utf-8'',
                     ''X-Content-Type-Options'' \<mapsto> ''nosniff''),
       body := body w @ [Text (msg @ [CHR 0x0A])]\<rparr>"
  by (simp add: Error_def writer_defs)

lemma json_reply_fresh:
  "\<not> wroteHeader w \<Longrightarrow> bodyAllowed code \<Longrightarrow>
   Write (JSON j) (WriteHeader code (Header_Set ''Content-Type'' ''application/json'' w)) =
     w\<lparr>header := (header w)(''Content-Type'' \<mapsto> ''application/json''),
       wroteHeader := True, status := code,
       sent := (header w)(''Content-Type'' \<mapsto> ''application/json''),
       body := body w @ [JSON j]\<rparr>"
  by (simp add: writer_defs)

lemma json_write_fresh:
  "\<not> wroteHeader w \<Longrightarrow>
   Write (JSON j) (Header_Set ''Content-Type'' ''application/json'' w) =
     w\<lparr>header := (header w)(''Content-Type'' \<mapsto> ''application/json''),
       wroteHeader := True, status := 200,
       sent := (header w)(''Content-Type'' \<mapsto> ''application/json''),
       body := body w @ [JSON j]\<rparr>"
  by (simp add: writer_defs)

lemma bodyAllowed_codes [simp]:
  "bodyAllowed 200" "bodyAllowed 201" "bodyAllowed 400" "bodyAllowed 404"
  "bodyAllowed 405" "bodyAllowed 500" "bodyAllowed 503" "\<not> bodyAllowed 204"
  by (simp_all add: bodyAllowed_def)

lemma fresh_cors [simp]:
  "\<not> wroteHeader (newResponse\<lparr>header := h\<rparr>)" "body (newResponse\<lparr>header := h\<rparr>) = []"
  by (simp_all add: newResponse_def)

section \<open>The handlers on a fresh writer\<close>

lemma handleHealth_fresh:
  "\<not> wroteHeader w \<Longrightarrow>
   handleHealth c w r st =
     (w\<lparr>header := (header w)(''Content-Type'' \<mapsto> ''application/json''),
        wroteHeader := True,
        status := (if fst (PingContext (WithTimeout (Context r) (1 * Second)) c st) then 503 else 200),
        sent := (header w)(''Content-Type'' \<mapsto> ''application/json''),
        body := body w @
          [JSON (marshalStatus
             (if fst (PingContext (WithTimeout (Context r) (1 * Second)) c st)
              then ''down'' else ''ok''))]\<rparr>,
      snd (PingContext (WithTimeout (Context r) (1 * Second)) c st))"
  unfolding handleHealth_def Let_def
  by (simp add: json_reply_fresh json_write_fresh split: prod.splits)

lemma handleHealth_Method:
  "handleHealth c w (r\<lparr>Method := m\<rparr>) st = handleHealth c w r st"
  by (simp add: handleHealth_def)



lemma createItem_failed:
  "Body r = Decoded req \<Longrightarrow> TrimSpace (req_Title req) \<noteq> [] \<Longrightarrow> insert_fails c \<Longrightarrow>
   createItem c w r st =
     (Error w ''failed to create item'' 500,
      st\<lparr>calls := calls st @ [CallInsert (TrimSpace (req_Title req))]\<rparr>)"
  by (simp add: createItem_def insertReturning_def)

lemma createItem_created:
  "Body r = Decoded req \<Longrightarrow> TrimSpace (req_Title req) \<noteq> [] \<Longrightarrow> \<not> insert_fails c \<Longrightarrow>
   createItem c w r st =
     (Write (JSON (marshalItem
          \<lparr>ID = next_id st, Title = TrimSpace (req_Title req), CreatedAt = now c\<rparr>))
        (WriteHeader 201 (Header_Set ''Content-Type'' ''application/json'' w)),
      st\<lparr>calls := calls st @ [CallInsert (TrimSpace (req_Title req))],
         rows := rows st @
           [\<lparr>ID = next_id st, Title = TrimSpace (req_Title req), CreatedAt = now c\<rparr>],
         next_id := next_id st + 1\<rparr>)"
  by (simp add: createItem_def insertReturning_def Let_def)

lemma scanRows_complete:
  "scanRows f i xs (Slice acc) = Stopped items False \<Longrightarrow> items = Slice (acc @ xs)"
proof (induction xs arbitrary: i acc)
  case Nil
  then show ?case by simp
next
  case (Cons x xs)
  from Cons.prems have "scanRows f (i + 1) xs (Slice (acc @ [x])) = Stopped items False"
    by (simp split: if_splits)
  from Cons.IH [OF this] show ?case by simp
qed

lemma scanRows_NoFault:
  "scanRows NoFault i xs (Slice acc) = Stopped (Slice (acc @ xs)) False"
  by (induction xs arbitrary: i acc) auto

lemma listItems_shape:
  "fst (listItems c w r st) = Error w ''failed to load items'' 500 \<or>
   (\<exists>items. scanRows (list_fault c) 0 (orderByCreatedAtDesc (rows st)) make_slice
              = Stopped items False \<and>
      fst (listItems c w r st) =
        Write (JSON (marshalItems items)) (Header_Set ''Content-Type'' ''application/json'' w))"
  by (simp add: listItems_def selectItems_def Let_def split: scanned.splits)

lemma listItems_NoFault:
  "list_fault c = NoFault \<Longrightarrow>
   fst (listItems c w r st) =
     Write (JSON (JArray (map marshalItem (orderByCreatedAtDesc (rows st)))))
       (Header_Set ''Content-Type'' ''application/json'' w)"
  by (simp add: listItems_def selectItems_def Let_def make_slice_def scanRows_NoFault)

lemma listItems_200:
  assumes "\<not> wroteHeader w" and "status (fst (listItems c w r st)) = 200"
  shows "fst (listItems c w r st) =
     Write (JSON (JArray (map marshalItem (orderByCreatedAtDesc (rows st)))))
       (Header_Set ''Content-Type'' ''application/json'' w)"
proof -
  from listItems_shape [of c w r st] show ?thesis
  proof
    assume "fst (listItems c w r st) = Error w ''failed to load items'' 500"
    with assms have False by (simp add: Error_fresh)
    then show ?thesis ..
  next
    assume "\<exists>items. scanRows (list_fault c) 0 (orderByCreatedAtDesc (rows st)) make_slice
                = Stopped items False \<and>
              fst (listItems c w r st) =
                Write (JSON (marshalItems items))
                  (Header_Set ''Content-Type'' ''application/json'' w)"
    then obtain items where
      s: "scanRows (list_fault c) 0 (orderByCreatedAtDesc (rows st)) (Slice []) = Stopped items False"
      and e: "fst (listItems c w r st) =
           Write (JSON (marshalItems items)) (Header_Set ''Content-Type'' ''application/json'' w)"
      by (auto simp: make_slice_def)
    from scanRows_complete [OF s] e show ?thesis by simp
  qed
qed

text \<open>Every handler of the two routes leaves a well-formed reply.\<close>

lemma answered_Error:
  "\<not> wroteHeader w \<Longrightarrow> code \<in> {400, 405, 500} \<Longrightarrow> answered w r (Error w msg code)"
  by (auto simp: answered_def Error_def writer_defs)

lemma answered_Error_Allow:
  "\<not> wroteHeader w \<Longrightarrow> code \<in> {400, 405, 500} \<Longrightarrow>
   answered w r (Error (Header_Set ''Allow'' v w) msg code)"
  by (auto simp: answered_def Error_def writer_defs)

lemma answered_json:
  "\<not> wroteHeader w \<Longrightarrow> code \<in> {200, 201, 503} \<Longrightarrow>
   answered w r
     (Write (JSON j) (WriteHeader code (Header_Set ''Content-Type'' ''application/json'' w)))"
  by (auto simp: answered_def writer_defs)

lemma answered_json_200:
  "\<not> wroteHeader w \<Longrightarrow>
   answered w r (Write (JSON j) (Header_Set ''Content-Type'' ''application/json'' w))"
  by (auto simp: answered_def writer_defs)

lemma answered_204:
  "\<not> wroteHeader w \<Longrightarrow> Method r = ''OPTIONS'' \<Longrightarrow> answered w r (WriteHeader 204 w)"
  by (auto simp: answered_def writer_defs)

lemma handleHealth_answered:
  "\<not> wroteHeader w \<Longrightarrow> answered w r (fst (handleHealth c w r st))"
  unfolding handleHealth_def Let_def
  by (simp add: answered_json answered_json_200 split: prod.splits)

lemma createItem_answered:
  "\<not> wroteHeader w \<Longrightarrow> answered w r (fst (createItem c w r st))"
  unfolding createItem_def Let_def
  by (simp add: answered_json answered_Error split: prod.splits option.splits decoded.splits)

lemma listItems_answered:
  "\<not> wroteHeader w \<Longrightarrow> answered w r (fst (listItems c w r st))"
  unfolding listItems_def Let_def
  by (simp add: answered_json_200 answered_Error
      split: prod.splits option.splits scanned.splits)

lemma handleItems_answered:
  "\<not> wroteHeader w \<Longrightarrow> answered w r (fst (handleItems c w r st))"
  unfolding handleItems_def
  by (simp add: listItems_answered createItem_answered answered_204 answered_Error_Allow)

lemma finish_answered: "answered w r w' \<Longrightarrow> finish w' = w'"
  by (simp add: answered_def finish_def)

section \<open>One request through the CORS wrapper and the multiplexer\<close>

lemma serve_options:
  "Method r = ''OPTIONS'' \<Longrightarrow>
   serve c r st =
     (\<lparr>header = [''Access-Control-Allow-Origin'' \<mapsto> ''*'',
                 ''Access-Control-Allow-Headers'' \<mapsto> ''Content-Type'',
                 ''Access-Control-Allow-Methods'' \<mapsto> ''GET,POST,OPTIONS''],
       wroteHeader = True, status = 204,
       sent = [''Access-Control-Allow-Origin'' \<mapsto> ''*'',
                 ''Access-Control-Allow-Headers'' \<mapsto> ''Content-Type'',
                 ''Access-Control-Allow-Methods'' \<mapsto> ''GET,POST,OPTIONS''],
       body = []\<rparr>, st)"
  by (simp add: serve_def withCORS_def Let_def finish_def newResponse_def writer_defs)

lemma serve_forward:
  "Method r \<noteq> ''OPTIONS'' \<Longrightarrow>
   serve c r st =
     (finish (fst (mux c
        (newResponse\<lparr>header := [''Access-Control-Allow-Origin'' \<mapsto> ''*'',
                 ''Access-Control-Allow-Headers'' \<mapsto> ''Content-Type'',
                 ''Access-Control-Allow-Methods'' \<mapsto> ''GET,POST,OPTIONS'']\<rparr>) r st)),
      snd (mux c
        (newResponse\<lparr>header := [''Access-Control-Allow-Origin'' \<mapsto> ''*'',
                 ''Access-Control-Allow-Headers'' \<mapsto> ''Content-Type'',
                 ''Access-Control-Allow-Methods'' \<mapsto> ''GET,POST,OPTIONS'']\<rparr>) r st))"
  by (simp add: serve_def withCORS_def Let_def Header_Set_def newResponse_def case_prod_beta)

lemma serve_items_post:
  "Method r = ''POST'' \<Longrightarrow> Path r = ''/api/items'' \<Longrightarrow>
   serve c r st =
     (finish (fst (createItem c
        (newResponse\<lparr>header := [''Access-Control-Allow-Origin'' \<mapsto> ''*'',
                 ''Access-Control-Allow-Headers'' \<mapsto> ''Content-Type'',
                 ''Access-Control-Allow-Methods'' \<mapsto> ''GET,POST,OPTIONS'']\<rparr>) r st)),
      snd (createItem c
        (newResponse\<lparr>header := [''Access-Control-Allow-Origin'' \<mapsto> ''*'',
                 ''Access-Control-Allow-Headers'' \<mapsto> ''Content-Type'',
                 ''Access-Control-Allow-Methods'' \<mapsto> ''GET,POST,OPTIONS'']\<rparr>) r st))"
  by (simp add: serve_forward mux_def handleItems_def)

lemma serve_items_get:
  "Method r = ''GET'' \<Longrightarrow> Path r = ''/api/items'' \<Longrightarrow>
   serve c r st =
     (finish (fst (listItems c
        (newResponse\<lparr>header := [''Access-Control-Allow-Origin'' \<mapsto> ''*'',
                 ''Access-Control-Allow-Headers'' \<mapsto> ''Content-Type'',
                 ''Access-Control-Allow-Methods'' \<mapsto> ''GET,POST,OPTIONS'']\<rparr>) r st)),
      snd (listItems c
        (newResponse\<lparr>header := [''Access-Control-Allow-Origin'' \<mapsto> ''*'',
                 ''Access-Control-Allow-Headers'' \<mapsto> ''Content-Type'',
                 ''Access-Control-Allow-Methods'' \<mapsto> ''GET,POST,OPTIONS'']\<rparr>) r st))"
  by (simp add: serve_forward mux_def handleItems_def)

lemma serve_health:
  "Method r \<noteq> ''OPTIONS'' \<Longrightarrow> Path r = ''/api/health'' \<Longrightarrow>
   serve c r st =
     (finish (fst (handleHealth c
        (newResponse\<lparr>header := [''Access-Control-Allow-Origin'' \<mapsto> ''*'',
                 ''Access-Control-Allow-Headers'' \<mapsto> ''Content-Type'',
                 ''Access-Control-Allow-Methods'' \<mapsto> ''GET,POST,OPTIONS'']\<rparr>) r st)),
      snd (handleHealth c
        (newResponse\<lparr>header := [''Access-Control-Allow-Origin'' \<mapsto> ''*'',
                 ''Access-Control-Allow-Headers'' \<mapsto> ''Content-Type'',
                 ''Access-Control-Allow-Methods'' \<mapsto> ''GET,POST,OPTIONS'']\<rparr>) r st))"
  by (simp add: serve_forward mux_def)

lemma serve_route_answered:
  assumes "Path r = ''/api/items'' \<or> Path r = ''/api/health''"
    and "Method r \<noteq> ''OPTIONS''"
  shows "answered
     (newResponse\<lparr>header := [''Access-Control-Allow-Origin'' \<mapsto> ''*'',
                 ''Access-Control-Allow-Headers'' \<mapsto> ''Content-Type'',
                 ''Access-Control-Allow-Methods'' \<mapsto> ''GET,POST,OPTIONS'']\<rparr>)
     r (fst (serve c r st))"
proof -
  let ?w = "newResponse\<lparr>header := [''Access-Control-Allow-Origin'' \<mapsto> ''*'',
                 ''Access-Control-Allow-Headers'' \<mapsto> ''Content-Type'',
                 ''Access-Control-Allow-Methods'' \<mapsto> ''GET,POST,OPTIONS'']\<rparr>"
  have fresh: "\<not> wroteHeader ?w" by (simp add: newResponse_def)
  have "answered ?w r (fst (mux c ?w r st))"
    using assms(1) handleHealth_answered [OF fresh] handleItems_answered [OF fresh]
    by (auto simp: mux_def)
  then show ?thesis
    using assms(2) by (simp add: serve_forward finish_answered)
qed

section \<open>The store's order, trimming, pings, and the example table\<close>

lemma insort_key_last:
  "\<forall>y\<in>set ys. f y < f x \<Longrightarrow> insort_key f x ys = ys @ [x]"
  by (induction ys) auto

lemma sort_key_strict_rev:
  "sorted_wrt (\<lambda>a b. f b < f a) xs \<Longrightarrow> sort_key f xs = rev xs"
proof (induction xs)
  case Nil
  then show ?case by simp
next
  case (Cons x xs)
  then have "\<forall>y\<in>set (rev xs). f y < f x" by simp
  with Cons show ?case by (simp add: insort_key_last)
qed

lemma orderByCreatedAtDesc_sorted:
  "sorted_wrt (\<lambda>a b. CreatedAt b \<le> CreatedAt a) (orderByCreatedAtDesc xs)"
proof -
  have "sorted (map (\<lambda>it. - CreatedAt it) (orderByCreatedAtDesc xs))"
    unfolding orderByCreatedAtDesc_def by (rule sorted_sort_key)
  then show ?thesis by (simp add: sorted_map)
qed

lemma orderByCreatedAtDesc_mset:
  "mset (orderByCreatedAtDesc xs) = mset xs"
  by (simp add: orderByCreatedAtDesc_def)

lemma orderByCreatedAtDesc_rev:
  "sorted_wrt (<) (map CreatedAt xs) \<Longrightarrow> orderByCreatedAtDesc xs = rev xs"
  unfolding orderByCreatedAtDesc_def
  by (rule sort_key_strict_rev) (simp add: sorted_wrt_map)

lemma rev_dropWhile_split:
  "ys = rev (dropWhile P (rev ys)) @ rev (takeWhile P (rev ys))"
proof -
  have "rev (takeWhile P (rev ys) @ dropWhile P (rev ys)) = rev (rev ys)"
    by (simp only: takeWhile_dropWhile_id)
  then show ?thesis
    by (simp only: rev_append rev_rev_ident)
qed

lemma TrimSpace_split:
  "s = takeWhile IsSpace s @ TrimSpace s
         @ rev (takeWhile IsSpace (rev (dropWhile IsSpace s)))"
proof -
  have "s = takeWhile IsSpace s @ dropWhile IsSpace s"
    by simp
  also have "dropWhile IsSpace s =
      TrimSpace s @ rev (takeWhile IsSpace (rev (dropWhile IsSpace s)))"
    unfolding TrimSpace_def by (rule rev_dropWhile_split)
  finally show ?thesis .
qed

lemma TrimSpace_decomp:
  "\<exists>pre suf. s = pre @ TrimSpace s @ suf \<and> (\<forall>x\<in>set pre. IsSpace x) \<and> (\<forall>x\<in>set suf. IsSpace x)"
proof (intro exI conjI)
  show "s = takeWhile IsSpace s @ TrimSpace s
         @ rev (takeWhile IsSpace (rev (dropWhile IsSpace s)))"
    by (rule TrimSpace_split)
  show "\<forall>x\<in>set (takeWhile IsSpace s). IsSpace x"
    by (auto dest: set_takeWhileD)
  show "\<forall>x\<in>set (rev (takeWhile IsSpace (rev (dropWhile IsSpace s)))). IsSpace x"
    by (auto dest: set_takeWhileD)
qed

lemma TrimSpace_ends:
  assumes "TrimSpace s \<noteq> []"
  shows "\<not> IsSpace (hd (TrimSpace s)) \<and> \<not> IsSpace (last (TrimSpace s))"
proof -
  let ?ys = "dropWhile IsSpace s"
  let ?zs = "dropWhile IsSpace (rev ?ys)"
  from assms have zs: "?zs \<noteq> []" by (simp add: TrimSpace_def)
  then have "\<not> IsSpace (hd ?zs)" by (rule hd_dropWhile)
  with zs have l: "\<not> IsSpace (last (TrimSpace s))"
    by (simp add: TrimSpace_def last_rev)
  from zs have ys: "?ys \<noteq> []" by (intro notI) simp
  then have nh: "\<not> IsSpace (hd ?ys)" by (rule hd_dropWhile)
  have "?ys = TrimSpace s @ rev (takeWhile IsSpace (rev ?ys))"
    unfolding TrimSpace_def by (rule rev_dropWhile_split)
  then have "hd ?ys = hd (TrimSpace s @ rev (takeWhile IsSpace (rev ?ys)))"
    by (rule arg_cong)
  with assms have "hd ?ys = hd (TrimSpace s)" by simp
  with nh l show ?thesis by simp
qed

lemma WithTimeout_le: "WithTimeout parent d \<le> d"
  by (simp add: WithTimeout_def split: option.splits)

lemma PingContext_calls:
  "\<exists>d. d \<le> ctx \<and> snd (PingContext ctx c st) = st\<lparr>calls := calls st @ [CallPing d]\<rparr>"
proof (cases "ping c")
  case (Answers t)
  show ?thesis
  proof (cases "t < ctx")
    case True
    with Answers show ?thesis
      by (intro exI [of _ t]) (simp add: PingContext_def)
  next
    case False
    with Answers show ?thesis
      by (intro exI [of _ ctx]) (simp add: PingContext_def)
  qed
next
  case (Refuses t)
  then show ?thesis
    by (intro exI [of _ "min t ctx"]) (simp add: PingContext_def)
next
  case Hangs
  then show ?thesis
    by (intro exI [of _ ctx]) (simp add: PingContext_def)
qed

lemma marshalStatus_inj: "marshalStatus ''ok'' \<noteq> marshalStatus ''down''"
  by (simp add: marshalStatus_def gostr_def)

lemma escapeByte_nonempty: "escapeByte c \<noteq> []"
  by (simp add: escapeByte_def)

lemma QueryEscape_nonempty: "s \<noteq> [] \<Longrightarrow> QueryEscape s \<noteq> []"
  by (cases s) (simp_all add: QueryEscape_def escapeByte_nonempty)

lemma getEnv_nonempty: "def \<noteq> [] \<Longrightarrow> getEnv env key def \<noteq> []"
  by (simp add: getEnv_def Let_def)

lemmas example_defs = steady_def request_of_def titled_def gostr_def

lemma three_items_rows:
  "three_items =
     \<lparr> rows = [\<lparr>ID = 1, Title = gostr ''A'', CreatedAt = 10\<rparr>,
               \<lparr>ID = 2, Title = gostr ''B'', CreatedAt = 20\<rparr>,
               \<lparr>ID = 3, Title = gostr ''C'', CreatedAt = 30\<rparr>],
       next_id = 4,
       calls = [CallInsert (gostr ''A''), CallInsert (gostr ''B''), CallInsert (gostr ''C'')] \<rparr>"
  by (simp add: three_items_def serve_items_post createItem_def insertReturning_def Let_def
      example_defs TrimSpace_def IsSpace_def empty_db_def)

section \<open>The decoder on the two example bodies\<close>







section \<open>The claims\<close>

text \<open>
  C1 (as amended). On \<open>/api/items\<close> and \<open>/api/health\<close> the content type follows the
  status. The replies with status 200, 201 and 503 carry
  \<open>Content-Type: application/json\<close>. The 400, 405 and 500 replies are written by
  \<open>http.Error\<close> and carry \<open>Content-Type: text/plain; charset=utf-8\<close>. The 204 reply to
  OPTIONS carries no content type.
\<close>

theorem content_type_follows_status:
  assumes "Path r = ''/api/items'' \<or> Path r = ''/api/health''"
  shows "status (fst (serve c r st)) \<in> {200, 201, 503} \<and>
           sent (fst (serve c r st)) ''Content-Type'' = Some ''application/json'' \<or>
         status (fst (serve c r st)) \<in> {400, 405, 500} \<and>
           sent (fst (serve c r st)) ''Content-Type'' = Some ''text/plain; charset=utf-8'' \<or>
         status (fst (serve c r st)) = 204 \<and> Method r = ''OPTIONS'' \<and>
           sent (fst (serve c r st)) ''Content-Type'' = None"
proof (cases "Method r = ''OPTIONS''")
  case True
  then show ?thesis by (simp add: serve_options)
next
  case False
  from serve_route_answered [OF assms False, of c st] show ?thesis
    by (simp add: answered_def newResponse_def)
qed

text \<open>An instance: the health check of a store in good order is a 200 JSON reply.\<close>

theorem content_type_follows_status_witness:
  "(Path (request_of ''GET'' ''/api/health'' DecodeError) = ''/api/items'' \<or>
    Path (request_of ''GET'' ''/api/health'' DecodeError) = ''/api/health'') \<and>
   status (fst (serve (steady 0) (request_of ''GET'' ''/api/health'' DecodeError) empty_db))
     = 200 \<and>
   sent (fst (serve (steady 0) (request_of ''GET'' ''/api/health'' DecodeError) empty_db))
     ''Content-Type'' = Some ''application/json''"
  using content_type_follows_status
    [of "request_of ''GET'' ''/api/health'' DecodeError" "steady 0" empty_db]
  by (simp add: request_of_def steady_def serve_health handleHealth_fresh PingContext_def
      WithTimeout_def Second_def finish_def)

text \<open>
  The 405 reply to \<open>DELETE /api/items\<close> does not carry \<open>application/json\<close>: the claim
  that every reply on the two routes does fails there.
\<close>

theorem delete_items_is_plain_text:
  "status (fst (serve \<lparr>now = 0, ping = Answers 1, insert_fails = False, list_fault = NoFault\<rparr>
      \<lparr>Method = ''DELETE'', Path = ''/api/items'', Body = DecodeError, Context = None\<rparr>
      empty_db)) = 405 \<and>
   sent (fst (serve \<lparr>now = 0, ping = Answers 1, insert_fails = False, list_fault = NoFault\<rparr>
      \<lparr>Method = ''DELETE'', Path = ''/api/items'', Body = DecodeError, Context = None\<rparr>
      empty_db)) ''Content-Type'' \<noteq> Some ''application/json''"
  by (simp add: serve_forward mux_def handleItems_def Error_def writer_defs finish_def
      newResponse_def)




text \<open>
  C3. A POST to \<open>/api/items\<close> whose body decodes and whose title trims to a non-empty
  \<open>t\<close>, when the insert succeeds, is answered with 201 and the JSON of the item whose
  title is \<open>t\<close>, whose id is the next value of the store's sequence and whose timestamp
  is the store's clock. That item is the one row added, by the one call sent to the store.
  \<open>t\<close> is the decoded title without the white space around it: it neither starts nor
  ends with a space, and the title is \<open>t\<close> between two runs of spaces.
\<close>

theorem create_returns_stored_item:
  assumes "Method r = ''POST''" and "Path r = ''/api/items''"
    and "Body r = Decoded req" and "TrimSpace (req_Title req) = t" and "t \<noteq> []"
    and "\<not> insert_fails c"
  shows "status (fst (serve c r st)) = 201 \<and>
         sent (fst (serve c r st)) ''Content-Type'' = Some ''application/json'' \<and>
         body (fst (serve c r st)) =
           [JSON (marshalItem \<lparr>ID = next_id st, Title = t, CreatedAt = now c\<rparr>)] \<and>
         rows (snd (serve c r st)) =
           rows st @ [\<lparr>ID = next_id st, Title = t, CreatedAt = now c\<rparr>] \<and>
         next_id (snd (serve c r st)) = next_id st + 1 \<and>
         calls (snd (serve c r st)) = calls st @ [CallInsert t] \<and>
         \<not> IsSpace (hd t) \<and> \<not> IsSpace (last t) \<and>
         (\<exists>pre suf. req_Title req = pre @ t @ suf \<and>
            (\<forall>x\<in>set pre. IsSpace x) \<and> (\<forall>x\<in>set suf. IsSpace x))"
proof -
  from assms have
    "status (fst (serve c r st)) = 201 \<and>
     sent (fst (serve c r st)) ''Content-Type'' = Some ''application/json'' \<and>
     body (fst (serve c r st)) =
       [JSON (marshalItem \<lparr>ID = next_id st, Title = t, CreatedAt = now c\<rparr>)] \<and>
     rows (snd (serve c r st)) =
       rows st @ [\<lparr>ID = next_id st, Title = t, CreatedAt = now c\<rparr>] \<and>
     next_id (snd (serve c r st)) = next_id st + 1 \<and>
     calls (snd (serve c r st)) = calls st @ [CallInsert t]"
    by (simp add: serve_items_post createItem_created json_reply_fresh finish_def)
  moreover from assms(4,5) TrimSpace_ends [of "req_Title req"]
  have "\<not> IsSpace (hd t) \<and> \<not> IsSpace (last t)" by simp
  moreover from assms(4) TrimSpace_decomp [of "req_Title req"]
  have "\<exists>pre suf. req_Title req = pre @ t @ suf \<and>
            (\<forall>x\<in>set pre. IsSpace x) \<and> (\<forall>x\<in>set suf. IsSpace x)" by simp
  ultimately show ?thesis by simp
qed

text \<open>An instance: \<open>"  Buy milk  "\<close> on the empty table gives item 1, titled \<open>"Buy milk"\<close>.\<close>

theorem create_returns_stored_item_witness:
  "Method (request_of ''POST'' ''/api/items'' (titled ''  Buy milk  '')) = ''POST'' \<and>
   Path (request_of ''POST'' ''/api/items'' (titled ''  Buy milk  '')) = ''/api/items'' \<and>
   Body (request_of ''POST'' ''/api/items'' (titled ''  Buy milk  '')) =
     Decoded \<lparr>req_Title = gostr ''  Buy milk  ''\<rparr> \<and>
   TrimSpace (gostr ''  Buy milk  '') = gostr ''Buy milk'' \<and>
   gostr ''Buy milk'' \<noteq> [] \<and>
   \<not> insert_fails (steady 1704067200) \<and>
   status (fst (serve (steady 1704067200)
     (request_of ''POST'' ''/api/items'' (titled ''  Buy milk  '')) empty_db)) = 201 \<and>
   body (fst (serve (steady 1704067200)
     (request_of ''POST'' ''/api/items'' (titled ''  Buy milk  '')) empty_db)) =
     [JSON (marshalItem \<lparr>ID = 1, Title = gostr ''Buy milk'', CreatedAt = 1704067200\<rparr>)] \<and>
   rows (snd (serve (steady 1704067200)
     (request_of ''POST'' ''/api/items'' (titled ''  Buy milk  '')) empty_db)) =
     [\<lparr>ID = 1, Title = gostr ''Buy milk'', CreatedAt = 1704067200\<rparr>]"
  using create_returns_stored_item
    [of "request_of ''POST'' ''/api/items'' (titled ''  Buy milk  '')"
        "\<lparr>req_Title = gostr ''  Buy milk  ''\<rparr>" "gostr ''Buy milk''"
        "steady 1704067200" empty_db]
  by (simp add: request_of_def titled_def steady_def empty_db_def gostr_def TrimSpace_def
      IsSpace_def)

text \<open>
  C4. When the table has no rows and the store answers the query, \<open>GET /api/items\<close> is
  answered with 200 and the JSON array \<open>[]\<close>: the body is not \<open>null\<close> and not missing.
\<close>

theorem empty_store_lists_empty_array:
  assumes "Method r = ''GET''" and "Path r = ''/api/items''" and "rows st = []"
    and "list_fault c \<noteq> QueryFails" and "list_fault c \<noteq> IterFails 0"
  shows "status (fst (serve c r st)) = 200 \<and>
         sent (fst (serve c r st)) ''Content-Type'' = Some ''application/json'' \<and>
         body (fst (serve c r st)) = [JSON (JArray [])] \<and>
         body (fst (serve c r st)) \<noteq> [JSON JNull] \<and>
         body (fst (serve c r st)) \<noteq> [] \<and>
         rows (snd (serve c r st)) = []"
  using assms
  by (simp add: serve_items_get listItems_def selectItems_def Let_def make_slice_def
      orderByCreatedAtDesc_def json_write_fresh finish_def)

text \<open>An instance: the empty table right after start-up.\<close>

theorem empty_store_lists_empty_array_witness:
  "Method (request_of ''GET'' ''/api/items'' DecodeError) = ''GET'' \<and>
   Path (request_of ''GET'' ''/api/items'' DecodeError) = ''/api/items'' \<and>
   rows empty_db = [] \<and>
   list_fault (steady 0) \<noteq> QueryFails \<and> list_fault (steady 0) \<noteq> IterFails 0 \<and>
   status (fst (serve (steady 0) (request_of ''GET'' ''/api/items'' DecodeError) empty_db))
     = 200 \<and>
   body (fst (serve (steady 0) (request_of ''GET'' ''/api/items'' DecodeError) empty_db))
     = [JSON (JArray [])]"
  using empty_store_lists_empty_array
    [of "request_of ''GET'' ''/api/items'' DecodeError" empty_db "steady 0"]
  by (simp add: request_of_def steady_def empty_db_def)

text \<open>
  C5. \<open>GET /api/items\<close> is answered with 200 when nothing fails, and whenever it is
  answered with 200 the body is the array of all rows in the store's order: the same rows,
  sorted by \<open>created_at\<close> descending. When the rows were created with strictly increasing
  timestamps this is the reverse of the order of creation.
\<close>

theorem list_is_newest_first:
  assumes "Method r = ''GET''" and "Path r = ''/api/items''"
  shows "(list_fault c = NoFault \<longrightarrow> status (fst (serve c r st)) = 200) \<and>
         (status (fst (serve c r st)) = 200 \<longrightarrow>
            body (fst (serve c r st)) =
              [JSON (JArray (map marshalItem (orderByCreatedAtDesc (rows st))))]) \<and>
         sorted_wrt (\<lambda>a b. CreatedAt b \<le> CreatedAt a) (orderByCreatedAtDesc (rows st)) \<and>
         mset (orderByCreatedAtDesc (rows st)) = mset (rows st) \<and>
         (sorted_wrt (<) (map CreatedAt (rows st)) \<longrightarrow>
            orderByCreatedAtDesc (rows st) = rev (rows st))"
proof -
  let ?w = "newResponse\<lparr>header := [''Access-Control-Allow-Origin'' \<mapsto> ''*'',
                 ''Access-Control-Allow-Headers'' \<mapsto> ''Content-Type'',
                 ''Access-Control-Allow-Methods'' \<mapsto> ''GET,POST,OPTIONS'']\<rparr>"
  have fresh: "\<not> wroteHeader ?w" by simp
  have fin: "fst (serve c r st) = fst (listItems c ?w r st)"
    using assms listItems_answered [OF fresh, of r c st]
    by (simp add: serve_items_get finish_answered)
  have a: "list_fault c = NoFault \<longrightarrow> status (fst (serve c r st)) = 200"
    by (simp add: fin listItems_NoFault json_write_fresh)
  have b: "status (fst (serve c r st)) = 200 \<longrightarrow>
            body (fst (serve c r st)) =
              [JSON (JArray (map marshalItem (orderByCreatedAtDesc (rows st))))]"
  proof
    assume "status (fst (serve c r st)) = 200"
    then have "status (fst (listItems c ?w r st)) = 200" by (simp add: fin)
    from listItems_200 [OF fresh this] show
      "body (fst (serve c r st)) =
         [JSON (JArray (map marshalItem (orderByCreatedAtDesc (rows st))))]"
      by (simp add: fin json_write_fresh)
  qed
  from a b show ?thesis
    by (simp add: orderByCreatedAtDesc_sorted orderByCreatedAtDesc_mset orderByCreatedAtDesc_rev)
qed

text \<open>An instance: items A, B, C created at times 10, 20, 30 are listed as C, B, A.\<close>

theorem list_is_newest_first_witness:
  "Method (request_of ''GET'' ''/api/items'' DecodeError) = ''GET'' \<and>
   Path (request_of ''GET'' ''/api/items'' DecodeError) = ''/api/items'' \<and>
   body (fst (serve (steady 40) (request_of ''GET'' ''/api/items'' DecodeError) three_items)) =
     [JSON (JArray (map marshalItem
        [\<lparr>ID = 3, Title = gostr ''C'', CreatedAt = 30\<rparr>,
         \<lparr>ID = 2, Title = gostr ''B'', CreatedAt = 20\<rparr>,
         \<lparr>ID = 1, Title = gostr ''A'', CreatedAt = 10\<rparr>]))]"
  using list_is_newest_first
    [of "request_of ''GET'' ''/api/items'' DecodeError" "steady 40" three_items]
  by (simp add: request_of_def steady_def three_items_rows)

text \<open>
  C6. A request to \<open>/api/items\<close> whose method is not GET, POST or OPTIONS is answered
  with 405 and the header \<open>Allow: GET, POST, OPTIONS\<close>, and does not touch the store.
\<close>

theorem unsupported_method_405:
  assumes "Path r = ''/api/items''"
    and "Method r \<noteq> ''GET''" and "Method r \<noteq> ''POST''" and "Method r \<noteq> ''OPTIONS''"
  shows "status (fst (serve c r st)) = 405 \<and>
         sent (fst (serve c r st)) ''Allow'' = Some ''GET, POST, OPTIONS'' \<and>
         snd (serve c r st) = st"
  using assms
  by (simp add: serve_forward mux_def handleItems_def Error_fresh Header_Set_def finish_def)

text \<open>An instance: \<open>DELETE /api/items\<close>.\<close>

theorem unsupported_method_405_witness:
  "Path (request_of ''DELETE'' ''/api/items'' DecodeError) = ''/api/items'' \<and>
   Method (request_of ''DELETE'' ''/api/items'' DecodeError) \<noteq> ''GET'' \<and>
   Method (request_of ''DELETE'' ''/api/items'' DecodeError) \<noteq> ''POST'' \<and>
   Method (request_of ''DELETE'' ''/api/items'' DecodeError) \<noteq> ''OPTIONS'' \<and>
   status (fst (serve (steady 0) (request_of ''DELETE'' ''/api/items'' DecodeError) empty_db))
     = 405 \<and>
   sent (fst (serve (steady 0) (request_of ''DELETE'' ''/api/items'' DecodeError) empty_db))
     ''Allow'' = Some ''GET, POST, OPTIONS''"
  using unsupported_method_405
    [of "request_of ''DELETE'' ''/api/items'' DecodeError" "steady 0" empty_db]
  by (simp add: request_of_def)

text \<open>
  C7. Every reply, for every path and method, carries the three cross-origin headers.
  An OPTIONS request is answered with 204 and an empty body, the store is not touched, and
  the reply is the same whatever handler is wrapped: the wrapped handler does not run.
\<close>

theorem cors_on_every_response:
  "sent (fst (serve c r st)) ''Access-Control-Allow-Origin'' = Some ''*'' \<and>
   sent (fst (serve c r st)) ''Access-Control-Allow-Headers'' = Some ''Content-Type'' \<and>
   sent (fst (serve c r st)) ''Access-Control-Allow-Methods'' = Some ''GET,POST,OPTIONS'' \<and>
   (Method r = ''OPTIONS'' \<longrightarrow>
      status (fst (serve c r st)) = 204 \<and> body (fst (serve c r st)) = [] \<and>
      snd (serve c r st) = st \<and>
      withCORS next c newResponse r st = withCORS mux c newResponse r st)"
proof (cases "Method r = ''OPTIONS''")
  case True
  then show ?thesis
    by (simp add: serve_options) (simp add: withCORS_def)
next
  case False
  show ?thesis
  proof (cases "Path r = ''/api/items'' \<or> Path r = ''/api/health''")
    case True
    from serve_route_answered [OF True False, of c st] False show ?thesis
      by (simp add: answered_def newResponse_def)
  next
    case nopath: False
    with False show ?thesis
      by (simp add: serve_forward mux_def NotFound_def Error_def writer_defs finish_def
          newResponse_def)
  qed
qed

text \<open>An instance: \<open>OPTIONS /api/items\<close>, with the not-found handler in place of the multiplexer.\<close>

theorem cors_on_every_response_witness:
  "Method (request_of ''OPTIONS'' ''/api/items'' DecodeError) = ''OPTIONS'' \<and>
   sent (fst (serve (steady 0) (request_of ''OPTIONS'' ''/api/items'' DecodeError) three_items))
     ''Access-Control-Allow-Origin'' = Some ''*'' \<and>
   status (fst (serve (steady 0) (request_of ''OPTIONS'' ''/api/items'' DecodeError)
     three_items)) = 204 \<and>
   body (fst (serve (steady 0) (request_of ''OPTIONS'' ''/api/items'' DecodeError)
     three_items)) = [] \<and>
   snd (serve (steady 0) (request_of ''OPTIONS'' ''/api/items'' DecodeError) three_items)
     = three_items \<and>
   withCORS NotFound (steady 0) newResponse
       (request_of ''OPTIONS'' ''/api/items'' DecodeError) three_items =
     withCORS mux (steady 0) newResponse
       (request_of ''OPTIONS'' ''/api/items'' DecodeError) three_items"
  using cors_on_every_response
    [of "steady 0" "request_of ''OPTIONS'' ''/api/items'' DecodeError" three_items NotFound]
  by (simp add: request_of_def)

text \<open>
  C8. \<open>GET /api/health\<close> pings the store under a context that ends after one second
  at the latest. The reply is 200 with \<open>{"status":"ok"}\<close> exactly when the ping returns
  no error, and 503 with \<open>{"status":"down"}\<close> exactly when it returns one. The ping is
  the only call to the store and takes at most one second.
\<close>

theorem health_reports_liveness:
  assumes "Method r = ''GET''" and "Path r = ''/api/health''"
  shows "((status (fst (serve c r st)) = 200 \<and>
           body (fst (serve c r st)) = [JSON (marshalStatus ''ok'')]) =
          (\<not> fst (PingContext (WithTimeout (Context r) (1 * Second)) c st))) \<and>
         ((status (fst (serve c r st)) = 503 \<and>
           body (fst (serve c r st)) = [JSON (marshalStatus ''down'')]) =
          fst (PingContext (WithTimeout (Context r) (1 * Second)) c st)) \<and>
         sent (fst (serve c r st)) ''Content-Type'' = Some ''application/json'' \<and>
         (\<exists>d. d \<le> 1 * Second \<and>
              snd (serve c r st) = st\<lparr>calls := calls st @ [CallPing d]\<rparr>)"
proof -
  have m: "Method r \<noteq> ''OPTIONS''" using assms(1) by simp
  obtain d where d: "d \<le> WithTimeout (Context r) (1 * Second)"
    and s: "snd (PingContext (WithTimeout (Context r) (1 * Second)) c st)
              = st\<lparr>calls := calls st @ [CallPing d]\<rparr>"
    using PingContext_calls by blast
  from d WithTimeout_le [of "Context r" "1 * Second"] have "d \<le> 1 * Second"
    by (rule order_trans)
  with s have "\<exists>d. d \<le> 1 * Second \<and>
      snd (serve c r st) = st\<lparr>calls := calls st @ [CallPing d]\<rparr>"
    using m assms(2) by (auto simp: serve_health handleHealth_fresh)
  then show ?thesis
    using m assms(2)
    by (simp add: serve_health handleHealth_fresh finish_def marshalStatus_inj)
qed

text \<open>An instance: a store that answers in two milliseconds, and one that never answers.\<close>

theorem health_reports_liveness_witness:
  "Method (request_of ''GET'' ''/api/health'' DecodeError) = ''GET'' \<and>
   Path (request_of ''GET'' ''/api/health'' DecodeError) = ''/api/health'' \<and>
   \<not> fst (PingContext (WithTimeout (Context (request_of ''GET'' ''/api/health'' DecodeError))
            (1 * Second)) (steady 0) empty_db) \<and>
   status (fst (serve (steady 0) (request_of ''GET'' ''/api/health'' DecodeError) empty_db))
     = 200 \<and>
   body (fst (serve (steady 0) (request_of ''GET'' ''/api/health'' DecodeError) empty_db))
     = [JSON (marshalStatus ''ok'')] \<and>
   fst (PingContext (WithTimeout (Context (request_of ''GET'' ''/api/health'' DecodeError))
            (1 * Second)) ((steady 0)\<lparr>ping := Hangs\<rparr>) empty_db) \<and>
   status (fst (serve ((steady 0)\<lparr>ping := Hangs\<rparr>)
     (request_of ''GET'' ''/api/health'' DecodeError) empty_db)) = 503 \<and>
   body (fst (serve ((steady 0)\<lparr>ping := Hangs\<rparr>)
     (request_of ''GET'' ''/api/health'' DecodeError) empty_db))
     = [JSON (marshalStatus ''down'')]"
  using health_reports_liveness
    [of "request_of ''GET'' ''/api/health'' DecodeError" "steady 0" empty_db]
    health_reports_liveness
    [of "request_of ''GET'' ''/api/health'' DecodeError" "(steady 0)\<lparr>ping := Hangs\<rparr>"
        empty_db]
  by (simp add: request_of_def steady_def PingContext_def WithTimeout_def Second_def)

text \<open>
  C9. A variable set to the empty string is read like one that is not set: \<open>getEnv\<close>
  returns the default, the same value it returns once the variable is removed. Every
  default of \<open>buildDSNFromEnv\<close> is non-empty, so each of the six values it reads is
  non-empty in every environment, and so are the escaped user and password.
\<close>

theorem getEnv_empty_is_unset:
  "getEnv (env(key \<mapsto> [])) key def = def \<and>
   getEnv (env(key \<mapsto> [])) key def = getEnv (env(key := None)) key def \<and>
   host (readDSNEnv env) \<noteq> [] \<and> port (readDSNEnv env) \<noteq> [] \<and>
   user (readDSNEnv env) \<noteq> [] \<and> password (readDSNEnv env) \<noteq> [] \<and>
   dbName (readDSNEnv env) \<noteq> [] \<and> sslmode (readDSNEnv env) \<noteq> [] \<and>
   QueryEscape (user (readDSNEnv env)) \<noteq> [] \<and>
   QueryEscape (password (readDSNEnv env)) \<noteq> []"
  by (simp add: readDSNEnv_def getEnv_nonempty QueryEscape_nonempty)
     (simp add: getEnv_def Getenv_def)

text \<open>An instance: \<open>DB_HOST\<close> set to the empty string.\<close>

theorem getEnv_empty_is_unset_witness:
  "getEnv [''DB_HOST'' \<mapsto> []] ''DB_HOST'' ''localhost'' = ''localhost'' \<and>
   getEnv [''DB_HOST'' \<mapsto> []] ''DB_HOST'' ''localhost'' =
     getEnv Map.empty ''DB_HOST'' ''localhost'' \<and>
   host (readDSNEnv [''DB_HOST'' \<mapsto> []]) \<noteq> []"
  using getEnv_empty_is_unset [of Map.empty "''DB_HOST''" "''localhost''"]
    getEnv_empty_is_unset [of "[''DB_HOST'' \<mapsto> []]" "''DB_HOST''" "''localhost''"]
  by simp

text \<open>
  C10. \<open>/api/health\<close> does not look at the method: for every method other than OPTIONS
  the request is served exactly as the same request with method GET, with one ping and a
  status of 200 or 503, never 405.
\<close>

theorem health_has_no_method_dispatch:
  assumes "Path r = ''/api/health''" and "Method r \<noteq> ''OPTIONS''"
  shows "serve c r st = serve c (r\<lparr>Method := ''GET''\<rparr>) st \<and>
         status (fst (serve c r st)) \<in> {200, 503} \<and>
         status (fst (serve c r st)) \<noteq> 405 \<and>
         (\<exists>d. calls (snd (serve c r st)) = calls st @ [CallPing d])"
proof -
  have "serve c (r\<lparr>Method := ''GET''\<rparr>) st = serve c r st"
    using assms by (simp add: serve_health handleHealth_Method)
  moreover have "status (fst (serve c r st)) \<in> {200, 503}"
    using assms by (simp add: serve_health handleHealth_fresh finish_def)
  moreover have "\<exists>d. calls (snd (serve c r st)) = calls st @ [CallPing d]"
  proof -
    obtain d where "snd (PingContext (WithTimeout (Context r) (1 * Second)) c st)
              = st\<lparr>calls := calls st @ [CallPing d]\<rparr>"
      using PingContext_calls by blast
    then have "calls (snd (serve c r st)) = calls st @ [CallPing d]"
      using assms by (simp add: serve_health handleHealth_fresh)
    then show ?thesis ..
  qed
  ultimately show ?thesis by auto
qed

text \<open>An instance: \<open>DELETE /api/health\<close>.\<close>

theorem health_has_no_method_dispatch_witness:
  "Path (request_of ''DELETE'' ''/api/health'' DecodeError) = ''/api/health'' \<and>
   Method (request_of ''DELETE'' ''/api/health'' DecodeError) \<noteq> ''OPTIONS'' \<and>
   serve (steady 0) (request_of ''DELETE'' ''/api/health'' DecodeError) empty_db =
     serve (steady 0) (request_of ''GET'' ''/api/health'' DecodeError) empty_db \<and>
   status (fst (serve (steady 0) (request_of ''DELETE'' ''/api/health'' DecodeError) empty_db))
     \<noteq> 405"
  using health_has_no_method_dispatch
    [of "request_of ''DELETE'' ''/api/health'' DecodeError" "steady 0" empty_db]
  by (auto simp: request_of_def)

end
